theory Spec2Isabelle
  imports Main
begin

section \<open>Data model of the My Tasks listing (MyTasksList.tsx)\<close>

text \<open>
  Modelled from the spec: the type declarations of \<open>models/task\<close>, \<open>models/staff\<close> and
  \<open>models/taskEvent\<close> are not among the sources at hand. The records follow the data model
  of the specification (a task has a name, a start and an end date, a status out of
  not-started, in-progress and completed, notes, a parent work with a title, and a list
  of assignee records, each a first and a last name) and the fields the component reads
  (\<open>assignee.assignee.first_name\<close>, \<open>work.title\<close>); \<open>notes\<close> is written \<open>task_notes\<close>.
  \<open>assignees\<close> and \<open>end_date\<close> are optional because the component guards them
  (\<open>task.assignees || [..]\<close>, \<open>row.assignees?.map\<close>, \<open>cell.getValue() && ..\<close>): \<open>None\<close> stands
  for \<open>undefined\<close> or \<open>null\<close>.
\<close>

record Staff =
  first_name :: string
  last_name :: string

record Assignee =
  assignee :: Staff

record Work =
  title :: string

datatype EVENT_STATUS = NOT_STARTED | INPROGRESS | COMPLETED

record MyTask =
  name :: string
  start_date :: string
  end_date :: "string option"
  status :: EVENT_STATUS
  task_notes :: string
  work :: Work
  assignees :: "Assignee list option"

text \<open>The signed-in user (\<open>state.user.userDetail\<close>), as far as the component reads it.\<close>

record UserDetail =
  firstName :: string
  lastName :: string

text \<open>A column filter is a column id with the list of selected values.\<close>

record ColumnFilter =
  filter_id :: string
  filter_value :: "string list"

text \<open>A notification raised through \<open>showNotification(message, {type})\<close>.\<close>

record Notification =
  message :: string
  notification_type :: string

subsection \<open>JavaScript values met by the dynamic property lookups\<close>

text \<open>
  The facet effect reads \<open>w[key][accessor]\<close> with computed keys, so the values a task
  property can hold are collected in one type. Strings and enum members are primitives;
  a work and an assignee array are objects.
\<close>

datatype jsval =
    JUndefined
  | JNull
  | JStr string
  | JStatus EVENT_STATUS
  | JWork Work
  | JAssignees "Assignee list"

text \<open>
  Truthiness as JavaScript defines it: \<open>undefined\<close>, \<open>null\<close> and the empty string are
  falsy; every object, also an empty array, is truthy. The members of the status enum are
  non-empty string constants.
\<close>

fun truthy :: "jsval \<Rightarrow> bool" where
  "truthy JUndefined = False"
| "truthy JNull = False"
| "truthy (JStr s) = (s \<noteq> [])"
| "truthy (JStatus e) = True"
| "truthy (JWork w) = True"
| "truthy (JAssignees as) = True"

subsection \<open>Component state\<close>

text \<open>
  The state hooks of the component, together with what its effects reach outside of it:
  the cache behind \<open>useCachedState\<close>, the loading flag of the surrounding
  \<open>MasterContext\<close> (\<open>ctx.loading\<close>, which the table shows) and the notifications raised so
  far. \<open>work_state\<close> is the hook \<open>[work, setWork]\<close>; it is renamed because \<open>work\<close> is a field
  of a task.
\<close>

record component_state =
  columnFilters :: "ColumnFilter list"
  cache :: "string \<Rightarrow> ColumnFilter list option"
  staffs :: "Staff list"
  loading :: bool
  myTasks :: "MyTask list"
  startDates :: "jsval list"
  endDates :: "jsval list"
  progress :: "jsval list"
  assigned :: "jsval list"
  work_state :: "jsval list"
  ctx_loading :: bool
  notifications :: "Notification list"

text \<open>
  The outcome of awaiting a service call: the promise rejects (the \<open>await\<close> throws), or it
  resolves to a response with a numeric status and a payload.
\<close>

datatype 'a fetch_result = Rejected | Response int 'a

section \<open>Data loader\<close>

text \<open>
  \<open>getMyTasks\<close> (lines 74-88): on status 200 the task list is replaced; a rejected call
  only clears the component's own \<open>loading\<close> flag; nothing else is touched.
\<close>

fun getMyTasks :: "MyTask list fetch_result \<Rightarrow> component_state \<Rightarrow> component_state" where
  "getMyTasks (Response st d) s = (if st = 200 then s\<lparr>myTasks := d\<rparr> else s)"
| "getMyTasks Rejected s = s\<lparr>loading := False\<rparr>"

text \<open>
  \<open>getStaffs\<close> (lines 340-351): on status 200 the staff list is replaced; a rejected call
  raises one error notification carrying \<open>COMMON_ERROR_MESSAGE\<close> (a constant of
  \<open>constants/application-constant\<close>, taken as a parameter).
\<close>

fun getStaffs :: "string \<Rightarrow> Staff list fetch_result \<Rightarrow> component_state \<Rightarrow> component_state" where
  "getStaffs COMMON_ERROR_MESSAGE (Response st d) s = (if st = 200 then s\<lparr>staffs := d\<rparr> else s)"
| "getStaffs COMMON_ERROR_MESSAGE Rejected s =
     s\<lparr>notifications := notifications s @
        [\<lparr>message = COMMON_ERROR_MESSAGE, notification_type = ''error''\<rparr>]\<rparr>"

text \<open>What the table receives as \<open>state.isLoading\<close> (line 387): the context's flag.\<close>

definition table_isLoading :: "component_state \<Rightarrow> bool" where
  "table_isLoading s = ctx_loading s"

section \<open>JavaScript array and string helpers\<close>

text \<open>
  \<open>Array.prototype.findIndex\<close>: the index of the first element satisfying the predicate,
  \<open>-1\<close> when there is none.
\<close>

fun findIndex_from :: "('a \<Rightarrow> bool) \<Rightarrow> nat \<Rightarrow> 'a list \<Rightarrow> int" where
  "findIndex_from p i [] = - 1"
| "findIndex_from p i (x # xs) = (if p x then int i else findIndex_from p (Suc i) xs)"

definition findIndex :: "('a \<Rightarrow> bool) \<Rightarrow> 'a list \<Rightarrow> int" where
  "findIndex p arr = findIndex_from p 0 arr"

text \<open>
  \<open>Array.prototype.filter\<close> with the three-argument callback \<open>(ele, index, arr)\<close>: the
  callback sees the element, its index and the whole array.
\<close>

fun filter_from :: "('a \<Rightarrow> nat \<Rightarrow> 'a list \<Rightarrow> bool) \<Rightarrow> 'a list \<Rightarrow> nat \<Rightarrow> 'a list \<Rightarrow> 'a list" where
  "filter_from p arr i [] = []"
| "filter_from p arr i (x # xs) =
     (if p x i arr then x # filter_from p arr (Suc i) xs else filter_from p arr (Suc i) xs)"

definition Array_filter :: "('a \<Rightarrow> nat \<Rightarrow> 'a list \<Rightarrow> bool) \<Rightarrow> 'a list \<Rightarrow> 'a list" where
  "Array_filter p arr = filter_from p arr 0 arr"

text \<open>
  \<open>Array.from(new Set(xs))\<close>: a set keeps its members in insertion order and ignores the
  insertion of a member it already has.
\<close>

definition Set_add :: "'a \<Rightarrow> 'a list \<Rightarrow> 'a list" where
  "Set_add x members = (if x \<in> set members then members else members @ [x])"

definition Array_from_Set :: "'a list \<Rightarrow> 'a list" where
  "Array_from_Set xs = fold Set_add xs []"

text \<open>\<open>Array.prototype.join\<close> on an array of strings.\<close>

fun join :: "string \<Rightarrow> string list \<Rightarrow> string" where
  "join sep [] = []"
| "join sep [x] = x"
| "join sep (x # y # ys) = x @ sep @ join sep (y # ys)"

text \<open>
  \<open>String.prototype.includes\<close>: whether the second string occurs in the first as a
  contiguous substring. \<open>startsWith\<close> compares at the current position.
\<close>

fun startsWith :: "'a list \<Rightarrow> 'a list \<Rightarrow> bool" where
  "startsWith s [] = True"
| "startsWith [] (c # cs) = False"
| "startsWith (x # xs) (c # cs) = (x = c \<and> startsWith xs cs)"

fun str_includes :: "'a list \<Rightarrow> 'a list \<Rightarrow> bool" where
  "str_includes [] t = (t = [])"
| "str_includes (x # xs) t = (startsWith (x # xs) t \<or> str_includes xs t)"

section \<open>Filter-facet deriver\<close>

text \<open>The template literal \<open>`${a.assignee.first_name} ${a.assignee.last_name}`\<close>.\<close>

definition full_name :: "Assignee \<Rightarrow> string" where
  "full_name a = first_name (assignee a) @ '' '' @ last_name (assignee a)"

text \<open>
  \<open>assigneeOptions\<close> (lines 123-134). \<open>task.assignees || [""]\<close> replaces a missing array by
  the one-element array \<open>[""]\<close>; an array that is present, also an empty one, is truthy and
  is kept. After \<open>flat()\<close> an element is an assignee object (\<open>Some\<close>) or the empty string
  (\<open>None\<close>), which the second \<open>map\<close> turns into a full name or into \<open>BLANK_OPTION\<close> (a
  constant of \<open>MasterTrackTable/utils\<close>, taken as a parameter).
\<close>

definition assigneeOptions :: "string \<Rightarrow> MyTask list \<Rightarrow> string list" where
  "assigneeOptions BLANK_OPTION tasks =
     Array_from_Set
       (map (\<lambda>a. case a of Some a' \<Rightarrow> full_name a' | None \<Rightarrow> BLANK_OPTION)
         (concat (map (\<lambda>task. case assignees task of Some as \<Rightarrow> map Some as | None \<Rightarrow> [None])
            tasks)))"

text \<open>
  Dynamic property reads. \<open>MyTask_get w key\<close> is \<open>w[key]\<close>; a key that is no field of a task
  reads \<open>undefined\<close>. \<open>jsval_get v key\<close> is \<open>v[key]\<close> for the property names the effect uses
  (\<open>start_date\<close>, \<open>end_date\<close>, \<open>progress\<close>, \<open>assigned\<close>, \<open>title\<close>): a work has a \<open>title\<close>, while a
  string, an enum member and an array have none of these properties. Reading a property
  of \<open>undefined\<close> or \<open>null\<close> throws in JavaScript; the effect reads a property of a truthy
  value only, so these two equations are never used by it.
\<close>

definition MyTask_get :: "MyTask \<Rightarrow> string \<Rightarrow> jsval" where
  "MyTask_get w key =
     (if key = ''name'' then JStr (name w)
      else if key = ''start_date'' then JStr (start_date w)
      else if key = ''end_date'' then (case end_date w of None \<Rightarrow> JNull | Some d \<Rightarrow> JStr d)
      else if key = ''status'' then JStatus (status w)
      else if key = ''notes'' then JStr (task_notes w)
      else if key = ''work'' then JWork (work w)
      else if key = ''assignees'' then
        (case assignees w of None \<Rightarrow> JUndefined | Some as \<Rightarrow> JAssignees as)
      else JUndefined)"

fun jsval_get :: "jsval \<Rightarrow> string \<Rightarrow> jsval" where
  "jsval_get (JWork w) key = (if key = ''title'' then JStr (title w) else JUndefined)"
| "jsval_get (JStr s) key = JUndefined"
| "jsval_get (JStatus e) key = JUndefined"
| "jsval_get (JAssignees as) key = JUndefined"
| "jsval_get JUndefined key = JUndefined"
| "jsval_get JNull key = JUndefined"

text \<open>
  The facet effect (lines 136-159). \<open>codeTypes\<close> maps a key to the setter of its facet list;
  \<open>Object.keys\<close> lists the keys in the order they are written. For each key the effect
  maps every task \<open>w\<close> to \<open>w[key] ? w[key][accessor] : null\<close> (\<open>code_value\<close>), keeps an element
  when it is the first of its value (\<open>arr.findIndex((t) => t === ele) === index\<close>) and
  truthy (\<open>codes_of\<close>), and hands the result to the setter. The task list is the one of the
  render the effect belongs to.
\<close>

definition codeTypes_keys :: "string list" where
  "codeTypes_keys = [''start_date'', ''end_date'', ''progress'', ''assigned'', ''work'']"

definition codeTypes :: "string \<Rightarrow> jsval list \<Rightarrow> component_state \<Rightarrow> component_state" where
  "codeTypes key codes s =
     (if key = ''start_date'' then s\<lparr>startDates := codes\<rparr>
      else if key = ''end_date'' then s\<lparr>endDates := codes\<rparr>
      else if key = ''progress'' then s\<lparr>progress := codes\<rparr>
      else if key = ''assigned'' then s\<lparr>assigned := codes\<rparr>
      else if key = ''work'' then s\<lparr>work_state := codes\<rparr>
      else s)"

definition code_value :: "string \<Rightarrow> MyTask \<Rightarrow> jsval" where
  "code_value key w =
     (let accessor = (if key = ''work'' then ''title'' else key)
      in if truthy (MyTask_get w key) then jsval_get (MyTask_get w key) accessor else JNull)"

definition codes_of :: "string \<Rightarrow> MyTask list \<Rightarrow> jsval list" where
  "codes_of key tasks =
     Array_filter (\<lambda>ele index arr. findIndex (\<lambda>t. t = ele) arr = int index \<and> truthy ele)
       (map (code_value key) tasks)"

definition facets_effect :: "component_state \<Rightarrow> component_state" where
  "facets_effect s =
     fold (\<lambda>key s'. codeTypes key (codes_of key (myTasks s)) s') codeTypes_keys s"

text \<open>
  The words of the specification for the same step: the values are taken in iteration
  order, a value already seen earlier is removed, and falsy results are discarded.
  \<open>unseen seen xs\<close> walks \<open>xs\<close> and drops what is in \<open>seen\<close> or was met before.
\<close>

fun unseen :: "'a list \<Rightarrow> 'a list \<Rightarrow> 'a list" where
  "unseen seen [] = []"
| "unseen seen (x # xs) =
     (if x \<in> set seen then unseen seen xs else x # unseen (x # seen) xs)"

definition first_occurrences :: "'a list \<Rightarrow> 'a list" where
  "first_occurrences xs = unseen [] xs"

definition distinct_truthy_values :: "(MyTask \<Rightarrow> jsval) \<Rightarrow> MyTask list \<Rightarrow> jsval list" where
  "distinct_truthy_values accessor tasks = first_occurrences (filter truthy (map accessor tasks))"

section \<open>Column configuration\<close>

text \<open>
  The assigned column. \<open>accessorFn\<close> (lines 261-264) joins the full names with a comma;
  optional chaining makes it \<open>undefined\<close> (\<open>None\<close>) for a task without an assignee array.
  \<open>row.renderValue(id)\<close> is the accessor's value, or the table's fallback (\<open>null\<close>) when
  that is \<open>undefined\<close>; both are \<open>None\<close> here.
\<close>

definition accessorFn :: "MyTask \<Rightarrow> string option" where
  "accessorFn row = map_option (\<lambda>as. join '', '' (map full_name as)) (assignees row)"

definition renderValue :: "MyTask \<Rightarrow> string option" where
  "renderValue row = accessorFn row"

text \<open>
  \<open>filterFn\<close> of the assigned column (lines 277-289). \<open>assigneeOptions\<close> is the option list
  of the same render, so the function takes the task list. \<open>x || BLANK_OPTION\<close> replaces
  \<open>undefined\<close>, \<open>null\<close> and the empty string.
\<close>

definition renderedValue :: "string \<Rightarrow> MyTask \<Rightarrow> string" where
  "renderedValue BLANK_OPTION row =
     (case renderValue row of None \<Rightarrow> BLANK_OPTION
      | Some v \<Rightarrow> if v = [] then BLANK_OPTION else v)"

definition filterFn :: "string \<Rightarrow> MyTask list \<Rightarrow> MyTask \<Rightarrow> string list \<Rightarrow> bool" where
  "filterFn BLANK_OPTION tasks row filterValue =
     (if filterValue = [] \<or> length filterValue > length (assigneeOptions BLANK_OPTION tasks)
      then True
      else list_all (\<lambda>filterName. str_includes (renderedValue BLANK_OPTION row) filterName)
             filterValue)"

text \<open>
  The status cell (lines 226-256). \<open>Switch\<close> of react-if renders the first \<open>Case\<close> whose
  condition holds, and nothing when none does. The label is that of the first entry of
  \<open>statusOptions\<close> (a table of \<open>models/taskEvent\<close>, taken as a parameter) whose value is the
  cell's; \<open>[0]?.label\<close> is \<open>undefined\<close> (\<open>None\<close>) when there is no such entry.
\<close>

datatype status_icon = NotStartedIcon | InProgressIcon | CompletedIcon

record StatusOption =
  option_label :: string
  option_value :: EVENT_STATUS

record status_cell =
  cell_icon :: "status_icon option"
  cell_label :: "string option"

fun Switch :: "(bool \<times> 'a) list \<Rightarrow> 'a option" where
  "Switch [] = None"
| "Switch ((condition, child) # cases) = (if condition then Some child else Switch cases)"

definition Cell_status :: "StatusOption list \<Rightarrow> EVENT_STATUS \<Rightarrow> status_cell" where
  "Cell_status statusOptions v =
     \<lparr>cell_icon = Switch [(v = NOT_STARTED, NotStartedIcon),
                          (v = INPROGRESS, InProgressIcon),
                          (v = COMPLETED, CompletedIcon)],
      cell_label =
        (case filter (\<lambda>statusOption. option_value statusOption = v) statusOptions of
           [] \<Rightarrow> None
         | statusOption # _ \<Rightarrow> Some (option_label statusOption))\<rparr>"

section \<open>Cached column filters\<close>

definition myTasksListColumnFiltersCacheKey :: string where
  "myTasksListColumnFiltersCacheKey = ''myTasks-listing-column-filters''"

text \<open>The default handed to \<open>useCachedState\<close> (lines 51-60).\<close>

definition default_columnFilters :: "UserDetail \<Rightarrow> ColumnFilter list" where
  "default_columnFilters user =
     [\<lparr>filter_id = ''status'', filter_value = [''In Progress'', ''Not Started'']\<rparr>,
      \<lparr>filter_id = ''assigned'', filter_value = [lastName user @ '', '' @ firstName user]\<rparr>]"

text \<open>
  Modelled from the spec: the hook \<open>useCachedState\<close> of \<open>hooks/useCachedFilters\<close> is not part
  of the sources at hand. The specification says that the column filter selections are
  persisted under a fixed storage key, read at mount and written whenever the user
  changes filters, with the default used when nothing is cached. Its setter therefore
  stores the new value in the state and under the key.
\<close>

definition setColumnFilters :: "ColumnFilter list \<Rightarrow> component_state \<Rightarrow> component_state" where
  "setColumnFilters filters s =
     s\<lparr>columnFilters := filters,
       cache := (cache s)(myTasksListColumnFiltersCacheKey := Some filters)\<rparr>"

text \<open>
  \<open>handleCacheFilters\<close> (lines 356-361): the argument is optional; \<open>None\<close> is the absent
  (\<open>undefined\<close>) argument. An empty array is truthy and is written like any other.
\<close>

fun handleCacheFilters :: "ColumnFilter list option \<Rightarrow> component_state \<Rightarrow> component_state" where
  "handleCacheFilters None s = s"
| "handleCacheFilters (Some filters) s = setColumnFilters filters s"

text \<open>
  The state of the first render when nothing is cached: the initial values of the state
  hooks (lines 49-72), the column filters being the default. The context's loading flag
  is whatever the surrounding provider holds.
\<close>

definition initial_state :: "UserDetail \<Rightarrow> bool \<Rightarrow> component_state" where
  "initial_state user ctx_flag =
     \<lparr>columnFilters = default_columnFilters user, cache = (\<lambda>key. None), staffs = [],
      loading = True, myTasks = [], startDates = [], endDates = [], progress = [],
      assigned = [], work_state = [], ctx_loading = ctx_flag, notifications = []\<rparr>"

section \<open>Example inputs\<close>

text \<open>Concrete tasks, users and selections on which the functions are evaluated below.\<close>

definition BLANKS :: string where
  "BLANKS = ''(Blanks)''"

definition task_alice :: MyTask where
  "task_alice =
     \<lparr>name = ''Review'', start_date = ''2024-01-01'', end_date = None, status = INPROGRESS,
      task_notes = [], work = \<lparr>title = ''W1''\<rparr>,
      assignees = Some [\<lparr>assignee = \<lparr>first_name = ''Alice'', last_name = ''Smith''\<rparr>\<rparr>]\<rparr>"

definition task_bob :: MyTask where
  "task_bob =
     \<lparr>name = ''Draft'', start_date = ''2024-01-02'', end_date = Some ''2024-02-01'',
      status = NOT_STARTED, task_notes = [], work = \<lparr>title = ''W1''\<rparr>,
      assignees = Some [\<lparr>assignee = \<lparr>first_name = ''Bob'', last_name = ''Jones''\<rparr>\<rparr>]\<rparr>"

definition task_unassigned :: MyTask where
  "task_unassigned =
     \<lparr>name = ''Triage'', start_date = ''2024-01-03'', end_date = None, status = NOT_STARTED,
      task_notes = [], work = \<lparr>title = ''W2''\<rparr>, assignees = Some []\<rparr>"

definition user_john :: UserDetail where
  "user_john = \<lparr>firstName = ''John'', lastName = ''Doe''\<rparr>"

definition task_john :: MyTask where
  "task_john =
     \<lparr>name = ''Sign off'', start_date = ''2024-01-04'', end_date = None, status = INPROGRESS,
      task_notes = [], work = \<lparr>title = ''W3''\<rparr>,
      assignees = Some [\<lparr>assignee = \<lparr>first_name = ''John'', last_name = ''Doe''\<rparr>\<rparr>]\<rparr>"

definition example_statusOptions :: "StatusOption list" where
  "example_statusOptions =
     [\<lparr>option_label = ''Not Started'', option_value = NOT_STARTED\<rparr>,
      \<lparr>option_label = ''In Progress'', option_value = INPROGRESS\<rparr>,
      \<lparr>option_label = ''Completed'', option_value = COMPLETED\<rparr>]"

text \<open>The state after the tasks of Alice and Bob have been loaded.\<close>

definition state_alice_bob :: component_state where
  "state_alice_bob = (initial_state user_john False)\<lparr>myTasks := [task_alice, task_bob]\<rparr>"

section \<open>Properties of the helpers\<close>

subsection \<open>\<open>includes\<close> is the substring relation\<close>



subsection \<open>Removing values already seen\<close>

lemma unseen_cong: "set s = set s' \<Longrightarrow> unseen s xs = unseen s' xs"
proof (induction xs arbitrary: s s')
  case Nil
  then show ?case by simp
next
  case (Cons x xs)
  then have "unseen (x # s) xs = unseen (x # s') xs" by (intro Cons.IH) simp
  moreover have "unseen s xs = unseen s' xs" using Cons by blast
  ultimately show ?case using Cons.prems by simp
qed

lemma set_unseen: "set (unseen s xs) = set xs - set s"
  by (induction xs arbitrary: s) auto

lemma distinct_unseen: "distinct (unseen s xs)"
  by (induction xs arbitrary: s) (auto simp: set_unseen)

lemma unseen_absent: "x \<notin> set ys \<Longrightarrow> unseen (x # s) ys = unseen s ys"
proof (induction ys arbitrary: s)
  case Nil
  then show ?case by simp
next
  case (Cons y ys)
  then have xy: "x \<noteq> y" and xs: "x \<notin> set ys" by auto
  have "unseen (y # x # s) ys = unseen (x # y # s) ys"
    by (rule unseen_cong) auto
  also have "\<dots> = unseen (y # s) ys" using Cons.IH [OF xs] .
  finally have a: "unseen (y # x # s) ys = unseen (y # s) ys" .
  show ?case using xy a Cons.IH [OF xs, of s] by simp
qed

lemma filter_unseen: "filter q (unseen s xs) = unseen s (filter q xs)"
proof (induction xs arbitrary: s)
  case Nil
  then show ?case by simp
next
  case (Cons x xs)
  show ?case
  proof (cases "q x")
    case True
    then show ?thesis using Cons.IH by simp
  next
    case False
    then have "x \<notin> set (filter q xs)" by simp
    then have "unseen (x # s) (filter q xs) = unseen s (filter q xs)" by (rule unseen_absent)
    then show ?thesis using False Cons.IH by simp
  qed
qed

subsection \<open>A set lists first occurrences\<close>

lemma fold_Set_add: "fold Set_add xs acc = acc @ unseen acc xs"
proof (induction xs arbitrary: acc)
  case Nil
  then show ?case by simp
next
  case (Cons x xs)
  show ?case
  proof (cases "x \<in> set acc")
    case True
    then show ?thesis using Cons.IH [of acc] by (simp add: Set_add_def)
  next
    case False
    have "unseen (acc @ [x]) xs = unseen (x # acc) xs" by (rule unseen_cong) simp
    then show ?thesis using False Cons.IH [of "acc @ [x]"] by (simp add: Set_add_def)
  qed
qed

lemma Array_from_Set_first_occurrences: "Array_from_Set xs = first_occurrences xs"
  by (simp add: Array_from_Set_def first_occurrences_def fold_Set_add)

subsection \<open>The first-index test of the facet effect\<close>

lemma findIndex_from_first:
  "findIndex_from (\<lambda>t. t = e) i (pre @ e # post) = int (i + length pre) \<longleftrightarrow> e \<notin> set pre"
proof (induction pre arbitrary: i)
  case Nil
  then show ?case by simp
next
  case (Cons a pre)
  show ?case
  proof (cases "a = e")
    case True
    then show ?thesis by simp
  next
    case False
    then show ?thesis using Cons.IH [of "Suc i"] by simp
  qed
qed

lemma findIndex_first:
  "findIndex (\<lambda>t. t = e) (pre @ e # post) = int (length pre) \<longleftrightarrow> e \<notin> set pre"
  using findIndex_from_first [of e 0 pre post] by (simp add: findIndex_def)

lemma filter_from_unseen:
  "filter_from (\<lambda>ele index arr. findIndex (\<lambda>t. t = ele) arr = int index \<and> q ele)
       (pre @ xs) (length pre) xs
   = filter q (unseen pre xs)"
proof (induction xs arbitrary: pre)
  case Nil
  then show ?case by simp
next
  case (Cons x xs)
  let ?p = "\<lambda>ele index arr. findIndex (\<lambda>t. t = ele) arr = int index \<and> q ele"
  have ih: "filter_from ?p (pre @ x # xs) (Suc (length pre)) xs = filter q (unseen (pre @ [x]) xs)"
    using Cons.IH [of "pre @ [x]"] by simp
  have same: "x \<in> set pre \<Longrightarrow> unseen (pre @ [x]) xs = unseen pre xs"
    by (rule unseen_cong) auto
  have new: "unseen (pre @ [x]) xs = unseen (x # pre) xs"
    by (rule unseen_cong) auto
  have keep: "?p x (length pre) (pre @ x # xs) \<longleftrightarrow> x \<notin> set pre \<and> q x"
    using findIndex_first [of x pre xs] by simp
  show ?case
  proof (cases "x \<in> set pre")
    case True
    then show ?thesis using keep ih same by simp
  next
    case False
    then show ?thesis using keep ih new by (cases "q x") (simp_all add: filter_unseen unseen_absent)
  qed
qed

text \<open>The effect's filter computes what the specification describes.\<close>

lemma codes_of_spec: "codes_of key tasks = distinct_truthy_values (code_value key) tasks"
  using filter_from_unseen [of truthy "[]" "map (code_value key) tasks"]
  by (simp add: codes_of_def Array_filter_def distinct_truthy_values_def first_occurrences_def
      filter_unseen)

lemma set_first_occurrences: "set (first_occurrences xs) = set xs"
  by (simp add: first_occurrences_def set_unseen)

lemma distinct_first_occurrences: "distinct (first_occurrences xs)"
  by (simp add: first_occurrences_def distinct_unseen)

text \<open>
  What the specification's words amount to: a list without duplicates whose members are
  exactly the truthy values of the accessor.
\<close>

lemma distinct_truthy_values_exact:
  "distinct (distinct_truthy_values f tasks) \<and>
   set (distinct_truthy_values f tasks) = {v \<in> f ` set tasks. truthy v}"
  by (auto simp: distinct_truthy_values_def distinct_first_occurrences set_first_occurrences)

subsection \<open>The assignee options\<close>

text \<open>
  The option list has no duplicates, holds the full name of every assignee of every task,
  and holds the blank option when the assignee array of some task is missing.
\<close>

lemma assigneeOptions_distinct: "distinct (assigneeOptions B tasks)"
  by (simp add: assigneeOptions_def Array_from_Set_first_occurrences distinct_first_occurrences)

lemma assigneeOptions_names:
  "assignees task = Some as \<Longrightarrow> task \<in> set tasks \<Longrightarrow> a \<in> set as \<Longrightarrow>
   full_name a \<in> set (assigneeOptions B tasks)"
  by (force simp: assigneeOptions_def Array_from_Set_first_occurrences set_first_occurrences)

lemma assigneeOptions_blank_when_missing:
  "task \<in> set tasks \<Longrightarrow> assignees task = None \<Longrightarrow> B \<in> set (assigneeOptions B tasks)"
  by (force simp: assigneeOptions_def Array_from_Set_first_occurrences set_first_occurrences)

subsection \<open>The values the facet effect maps to\<close>

text \<open>
  In this data model the dates are strings and \<open>progress\<close> and \<open>assigned\<close> are no fields of
  a task, so \<open>w[key][key]\<close> is never truthy for these four keys; for \<open>work\<close> the value is
  the title of the parent work.
\<close>

lemma code_value_work: "code_value ''work'' w = JStr (title (work w))"
  by (simp add: code_value_def MyTask_get_def)

lemma code_value_falsy:
  "key \<in> {''start_date'', ''end_date'', ''progress'', ''assigned''} \<Longrightarrow>
   \<not> truthy (code_value key w)"
  by (auto simp: code_value_def MyTask_get_def split: option.splits)

text \<open>
  What the effect stores: each list is the first-occurrence list of the truthy values of
  \<open>code_value\<close>. For the four keys above that list is empty whatever the tasks are; the
  work list holds the distinct non-empty titles.
\<close>

lemma distinct_truthy_values_falsy:
  "(\<And>w. \<not> truthy (f w)) \<Longrightarrow> distinct_truthy_values f tasks = []"
  by (simp add: distinct_truthy_values_def first_occurrences_def)

lemma facets_effect_lists:
  "startDates (facets_effect s)
     = distinct_truthy_values (code_value ''start_date'') (myTasks s) \<and>
   endDates (facets_effect s)
     = distinct_truthy_values (code_value ''end_date'') (myTasks s) \<and>
   progress (facets_effect s)
     = distinct_truthy_values (code_value ''progress'') (myTasks s) \<and>
   assigned (facets_effect s)
     = distinct_truthy_values (code_value ''assigned'') (myTasks s) \<and>
   work_state (facets_effect s)
     = distinct_truthy_values (code_value ''work'') (myTasks s) \<and>
   myTasks (facets_effect s) = myTasks s"
  by (simp add: facets_effect_def codeTypes_keys_def codeTypes_def codes_of_spec)

lemma facets_effect_primitive_keys_empty:
  "startDates (facets_effect s) = [] \<and> endDates (facets_effect s) = [] \<and>
   progress (facets_effect s) = [] \<and> assigned (facets_effect s) = []"
proof -
  have "distinct_truthy_values (code_value key) (myTasks s) = []"
    if "key \<in> {''start_date'', ''end_date'', ''progress'', ''assigned''}" for key
    using that code_value_falsy [of key] by (intro distinct_truthy_values_falsy) blast
  then show ?thesis using facets_effect_lists [of s] by simp
qed

lemma facets_effect_work_titles:
  "work_state (facets_effect s)
     = first_occurrences (filter truthy (map (\<lambda>w. JStr (title (work w))) (myTasks s)))"
proof -
  have "code_value ''work'' = (\<lambda>w. JStr (title (work w)))"
    by (rule ext) (rule code_value_work)
  then show ?thesis
    using facets_effect_lists [of s] by (simp add: distinct_truthy_values_def)
qed

subsection \<open>What a task fetch leaves alone\<close>

text \<open>
  \<open>getMyTasks\<close> raises no notification and never writes the context's loading flag; a
  rejected call leaves the task list as it is and clears the component's own flag.
\<close>

lemma getMyTasks_frame:
  "notifications (getMyTasks r s) = notifications s \<and>
   ctx_loading (getMyTasks r s) = ctx_loading s \<and>
   myTasks (getMyTasks Rejected s) = myTasks s \<and>
   \<not> loading (getMyTasks Rejected s)"
  by (cases r) simp_all

subsection \<open>An evaluated option list\<close>


section \<open>The claims\<close>

subsection \<open>C1: selections the assignee filter lets everything through\<close>




subsection \<open>C2: the facet lists\<close>

text \<open>
  C2 at the tasks of Alice and Bob. The tasks have two distinct start dates and one end
  date, so the start date facet should list the two start dates and the end date facet
  the one end date, in order of first appearance. The effect reads \<open>w[key][key]\<close>, a
  property of the date string, which is \<open>undefined\<close> and is discarded as falsy: both
  date facets come out empty. Only the work facet, read through \<open>title\<close>, lists its
  distinct values.
\<close>

theorem facets_effect_date_facets_empty:
  "myTasks state_alice_bob = [task_alice, task_bob] \<and>
   distinct_truthy_values (\<lambda>w. MyTask_get w ''start_date'') (myTasks state_alice_bob)
     = [JStr ''2024-01-01'', JStr ''2024-01-02''] \<and>
   startDates (facets_effect state_alice_bob) = [] \<and>
   distinct_truthy_values (\<lambda>w. MyTask_get w ''end_date'') (myTasks state_alice_bob)
     = [JStr ''2024-02-01''] \<and>
   endDates (facets_effect state_alice_bob) = [] \<and>
   work_state (facets_effect state_alice_bob) = [JStr ''W1'']"
  by (simp add: facets_effect_def codeTypes_keys_def codeTypes_def codes_of_spec
      state_alice_bob_def initial_state_def distinct_truthy_values_def first_occurrences_def
      code_value_def MyTask_get_def task_alice_def task_bob_def)

subsection \<open>C3: the assignee options of a task without assignees\<close>

text \<open>
  C3 at a task whose assignee array is empty. The option list of this task list is empty,
  so it does not hold the blank option, although the task has no assignees; the row of
  the same task is filtered under the blank option, since the empty rendered string is
  replaced by it.
\<close>

theorem assigneeOptions_empty_array:
  "assignees task_unassigned = Some [] \<and>
   assigneeOptions BLANKS [task_unassigned] = [] \<and>
   renderedValue BLANKS task_unassigned = BLANKS"
  by (simp add: assigneeOptions_def task_unassigned_def Array_from_Set_def renderedValue_def
      renderValue_def accessorFn_def)

subsection \<open>C4: a failed staff fetch\<close>

text \<open>
  C4. When the staff fetch throws, exactly one error notification with the generic
  message is added and the staff list is unchanged (so it remains empty when it was);
  when the fetch returns a status other than 200, the state is unchanged: no
  notification is shown and the staff list stays as it is.
\<close>

theorem getStaffs_failure:
  "getStaffs M Rejected s =
     s\<lparr>notifications := notifications s @ [\<lparr>message = M, notification_type = ''error''\<rparr>]\<rparr> \<and>
   staffs (getStaffs M Rejected s) = staffs s \<and>
   (st \<noteq> 200 \<longrightarrow> getStaffs M (Response st d) s = s)"
  by simp

text \<open>The theorem on the initial state, with a rejected call and with status 500.\<close>

theorem getStaffs_failure_witness:
  "notifications (getStaffs ''Error'' Rejected (initial_state user_john True))
     = [\<lparr>message = ''Error'', notification_type = ''error''\<rparr>] \<and>
   staffs (getStaffs ''Error'' Rejected (initial_state user_john True)) = [] \<and>
   (500::int) \<noteq> 200 \<and>
   notifications
     (getStaffs ''Error'' (Response 500 [\<lparr>first_name = ''A'', last_name = ''B''\<rparr>])
        (initial_state user_john True)) = [] \<and>
   staffs
     (getStaffs ''Error'' (Response 500 [\<lparr>first_name = ''A'', last_name = ''B''\<rparr>])
        (initial_state user_john True)) = []"
  using getStaffs_failure
    [of "''Error''" "initial_state user_john True" 500
      "[\<lparr>first_name = ''A'', last_name = ''B''\<rparr>]"]
  by (simp add: initial_state_def)

subsection \<open>C5: a failed task fetch\<close>

text \<open>
  C5 at a rejected task fetch while the context reports loading. No notification is
  raised and the task list stays empty, and the catch block clears the component's own
  loading flag; but the table is bound to the context's flag, so the loading indicator it
  shows is still on after the failed fetch. After a response with status 500 even the
  component's own flag is still set.
\<close>

theorem getMyTasks_rejected_table_loading:
  "table_isLoading (initial_state user_john True) \<and>
   loading (initial_state user_john True) \<and>
   \<not> loading (getMyTasks Rejected (initial_state user_john True)) \<and>
   table_isLoading (getMyTasks Rejected (initial_state user_john True)) \<and>
   notifications (getMyTasks Rejected (initial_state user_john True)) = [] \<and>
   myTasks (getMyTasks Rejected (initial_state user_john True)) = [] \<and>
   loading (getMyTasks (Response 500 []) (initial_state user_john True))"
  by (simp add: table_isLoading_def initial_state_def)

subsection \<open>C6: only status 200 replaces the state\<close>

text \<open>
  C6. For every response, the task list after \<open>getMyTasks\<close> is the response data when the
  status is 200 and the old task list otherwise, and likewise the staff list after
  \<open>getStaffs\<close>; for any status other than 200 the state is left unchanged.
\<close>

theorem fetch_replaces_state_iff_200:
  "myTasks (getMyTasks (Response st d) s) = (if st = 200 then d else myTasks s) \<and>
   staffs (getStaffs M (Response st d') s) = (if st = 200 then d' else staffs s) \<and>
   (st \<noteq> 200 \<longrightarrow> getMyTasks (Response st d) s = s \<and> getStaffs M (Response st d') s = s)"
  by simp

text \<open>The theorem at status 200 and at status 404, on the initial state.\<close>

theorem fetch_replaces_state_iff_200_witness:
  "myTasks (getMyTasks (Response 200 [task_alice]) (initial_state user_john False))
     = [task_alice] \<and>
   staffs
     (getStaffs ''Error'' (Response 200 [\<lparr>first_name = ''A'', last_name = ''B''\<rparr>])
        (initial_state user_john False))
     = [\<lparr>first_name = ''A'', last_name = ''B''\<rparr>] \<and>
   (404::int) \<noteq> 200 \<and>
   myTasks (getMyTasks (Response 404 [task_alice]) (initial_state user_john False)) = [] \<and>
   staffs
     (getStaffs ''Error'' (Response 404 [\<lparr>first_name = ''A'', last_name = ''B''\<rparr>])
        (initial_state user_john False)) = []"
  using
    fetch_replaces_state_iff_200
      [of 200 "[task_alice]" "initial_state user_john False" "''Error''"
        "[\<lparr>first_name = ''A'', last_name = ''B''\<rparr>]"]
    fetch_replaces_state_iff_200
      [of 404 "[task_alice]" "initial_state user_john False" "''Error''"
        "[\<lparr>first_name = ''A'', last_name = ''B''\<rparr>]"]
  by (simp add: initial_state_def)

subsection \<open>C7: substring semantics of the assignee filter\<close>




subsection \<open>C8: the status cell of a task in progress\<close>

text \<open>
  C8. For the in-progress status the cell renders the in-progress icon, and neither the
  not-started icon nor the completed icon, together with the label of the first entry of
  the status options configured for that status; for every status the icon is the one
  whose enum value equals the cell's value.
\<close>

theorem Cell_status_in_progress:
  "cell_icon (Cell_status statusOptions INPROGRESS) = Some InProgressIcon \<and>
   cell_icon (Cell_status statusOptions INPROGRESS) \<noteq> Some NotStartedIcon \<and>
   cell_icon (Cell_status statusOptions INPROGRESS) \<noteq> Some CompletedIcon \<and>
   cell_label (Cell_status statusOptions INPROGRESS)
     = map_option option_label
         (find (\<lambda>statusOption. option_value statusOption = INPROGRESS) statusOptions) \<and>
   cell_icon (Cell_status statusOptions v)
     = Some (case v of NOT_STARTED \<Rightarrow> NotStartedIcon | INPROGRESS \<Rightarrow> InProgressIcon
             | COMPLETED \<Rightarrow> CompletedIcon)"
proof -
  have "(case filter P xs of [] \<Rightarrow> None | x # _ \<Rightarrow> Some (option_label x))
      = map_option option_label (find P xs)"
    for P and xs :: "StatusOption list"
    by (induction xs) auto
  then show ?thesis by (cases v) (simp_all add: Cell_status_def)
qed

text \<open>The theorem with the three usual status options.\<close>

theorem Cell_status_in_progress_witness:
  "Cell_status example_statusOptions INPROGRESS
     = \<lparr>cell_icon = Some InProgressIcon, cell_label = Some ''In Progress''\<rparr>"
  using Cell_status_in_progress [of example_statusOptions INPROGRESS]
  by (simp add: example_statusOptions_def Cell_status_def)

subsection \<open>C9: the default column filters\<close>

text \<open>
  C9 at the user John Doe with one task assigned to him and nothing cached. The default
  selects the two statuses and, for the assigned column, the string "Doe, John"; the row
  of his own task renders as "John Doe", which does not contain that string, so the
  default filter rejects the task assigned to the current user.
\<close>

theorem default_columnFilters_own_task:
  "default_columnFilters user_john =
     [\<lparr>filter_id = ''status'', filter_value = [''In Progress'', ''Not Started'']\<rparr>,
      \<lparr>filter_id = ''assigned'', filter_value = [''Doe, John'']\<rparr>] \<and>
   columnFilters (initial_state user_john False) = default_columnFilters user_john \<and>
   assigneeOptions BLANKS [task_john] = [''John Doe''] \<and>
   renderedValue BLANKS task_john = ''John Doe'' \<and>
   \<not> filterFn BLANKS [task_john] task_john [''Doe, John'']"
  by (simp add: default_columnFilters_def user_john_def filterFn_def renderedValue_def
      renderValue_def accessorFn_def assigneeOptions_def task_john_def Array_from_Set_def
      Set_add_def full_name_def initial_state_def)

subsection \<open>C10: the filter-cache handler\<close>

text \<open>
  C10. When the filter argument of the filter-cache handler is absent, the state, and with
  it the cached column filters, is left unchanged; the cache and the column filter state
  change only when a filter list is provided.
\<close>

theorem handleCacheFilters_absent:
  "handleCacheFilters None s = s \<and>
   cache (handleCacheFilters None s) = cache s \<and>
   (cache (handleCacheFilters filters s) \<noteq> cache s \<longrightarrow> filters \<noteq> None) \<and>
   (columnFilters (handleCacheFilters filters s) \<noteq> columnFilters s \<longrightarrow> filters \<noteq> None)"
  by (cases filters) simp_all

text \<open>The theorem on the initial state, with an absent and with an empty filter list.\<close>

theorem handleCacheFilters_absent_witness:
  "handleCacheFilters None (initial_state user_john False) = initial_state user_john False \<and>
   cache (handleCacheFilters (Some []) (initial_state user_john False))
     myTasksListColumnFiltersCacheKey = Some [] \<and>
   columnFilters (handleCacheFilters (Some []) (initial_state user_john False)) = []"
  using handleCacheFilters_absent [of "initial_state user_john False" "Some []"]
  by (simp add: setColumnFilters_def initial_state_def)

end
